theory Spec2Isabelle
  imports Complex_Main "HOL-Library.AList" "HOL-Library.Monad_Syntax"
begin

section \<open>Comics API: values, documents and exceptions\<close>

text \<open>
  The service of \<^verbatim>\<open>main.py\<close> moves Python dictionaries between a document store and
  its JSON responses. A value of such a dictionary is \<open>None\<close>, a string, a float, a list,
  the store's object identifier or a timestamp. A float is the rational it denotes (the
  program never computes with one); an object identifier is its 24 hexadecimal digits; a
  timestamp is a value of the type parameter \<open>'dt\<close>, about which the program only asks
  for \<open>isoformat\<close>.
\<close>

datatype 'dt pyval =
    PNone
  | PStr string
  | PFloat rat
  | PList "'dt pyval list"
  | PObjectId string
  | PDatetime 'dt

text \<open>
  A dictionary keeps its keys in insertion order: an association list. Assigning to a key
  that exists replaces the value in place, assigning to a new key appends
  (\<open>AList.update\<close>), \<open>pop\<close> removes the key (\<open>AList.delete\<close>), \<open>k in d\<close> and \<open>d.get(k)\<close>
  are \<open>map_of\<close>.
\<close>

type_synonym 'dt pydict = "(string \<times> 'dt pyval) list"

text \<open>
  What the interpreter and the libraries do, outside this repository: Python's \<open>str\<close>,
  \<open>datetime.isoformat\<close> and the regular-expression search of the store
  (pattern, options, subject).
\<close>

record 'dt lib =
  str_of :: "'dt pyval \<Rightarrow> string"
  isoformat :: "'dt \<Rightarrow> string"
  regex_search :: "string \<Rightarrow> string \<Rightarrow> string \<Rightarrow> bool"

text \<open>
  The exceptions the handlers meet. \<open>HTTPException\<close> carries status code and detail;
  \<open>RequestValidationError\<close> is the framework's rejection of a request before the handler
  runs; \<open>ValidationError\<close> is raised by the constructor of a response model; \<open>InvalidId\<close> by
  the constructor of an object identifier; \<open>StoreError\<close> by any call of the store.
\<close>

datatype exn =
    HTTPException nat string
  | RequestValidationError
  | ValidationError
  | InvalidId
  | StoreError

section \<open>serialize_document\<close>

text \<open>
  \<^verbatim>\<open>hasattr(out[k], "isoformat")\<close> holds of a timestamp and of no other value of a
  document.
\<close>

definition iso_field :: "'dt lib \<Rightarrow> 'dt pydict \<Rightarrow> string \<Rightarrow> 'dt pydict" where
  "iso_field lib out k =
     (case map_of out k of
        Some (PDatetime d) \<Rightarrow> AList.update k (PStr (isoformat lib d)) out
      | _ \<Rightarrow> out)"

definition rename_id :: "'dt lib \<Rightarrow> 'dt pydict \<Rightarrow> 'dt pydict" where
  "rename_id lib out =
     (case map_of out ''_id'' of
        None \<Rightarrow> out
      | Some v \<Rightarrow> AList.update ''id'' (PStr (str_of lib v)) (AList.delete ''_id'' out))"

text \<open>The value \<^verbatim>\<open>serialize_document\<close> returns, as a function of the value of \<open>doc\<close>.\<close>

definition serialize_document :: "'dt lib \<Rightarrow> 'dt pydict \<Rightarrow> 'dt pydict" where
  "serialize_document lib doc =
     (let out = doc;
          out = rename_id lib out
      in foldl (iso_field lib) out [''created_at'', ''updated_at''])"

subsection \<open>The same function on a heap of dictionaries\<close>

text \<open>
  Dictionaries are objects: a caller and \<^verbatim>\<open>serialize_document\<close> may hold the same one.
  A heap maps addresses to dictionaries; \<open>top\<close> is the next free address. \<open>doc.copy()\<close>
  allocates; \<open>pop\<close> and item assignment update the cell of \<open>out\<close> in place.
\<close>

record 'dt heap =
  cells :: "nat \<Rightarrow> 'dt pydict"
  top :: nat

definition dict_copy :: "'dt heap \<Rightarrow> nat \<Rightarrow> 'dt heap \<times> nat" where
  "dict_copy h a = (h\<lparr>cells := (cells h)(top h := cells h a), top := Suc (top h)\<rparr>, top h)"

definition dict_contains :: "'dt heap \<Rightarrow> nat \<Rightarrow> string \<Rightarrow> bool" where
  "dict_contains h a k = (map_of (cells h a) k \<noteq> None)"

definition dict_pop :: "'dt heap \<Rightarrow> nat \<Rightarrow> string \<Rightarrow> 'dt heap \<times> 'dt pyval" where
  "dict_pop h a k =
     (h\<lparr>cells := (cells h)(a := AList.delete k (cells h a))\<rparr>,
      case map_of (cells h a) k of Some v \<Rightarrow> v | None \<Rightarrow> PNone)"

definition dict_setitem :: "'dt heap \<Rightarrow> nat \<Rightarrow> string \<Rightarrow> 'dt pyval \<Rightarrow> 'dt heap" where
  "dict_setitem h a k v = h\<lparr>cells := (cells h)(a := AList.update k v (cells h a))\<rparr>"

definition iso_field_heap :: "'dt lib \<Rightarrow> nat \<Rightarrow> 'dt heap \<Rightarrow> string \<Rightarrow> 'dt heap" where
  "iso_field_heap lib out h k =
     (case map_of (cells h out) k of
        Some (PDatetime d) \<Rightarrow> dict_setitem h out k (PStr (isoformat lib d))
      | _ \<Rightarrow> h)"

definition serialize_document_heap :: "'dt lib \<Rightarrow> 'dt heap \<Rightarrow> nat \<Rightarrow> 'dt heap \<times> nat" where
  "serialize_document_heap lib h doc =
     (let (h, out) = dict_copy h doc;
          h = (if dict_contains h out ''_id''
               then (let (h, v) = dict_pop h out ''_id''
                     in dict_setitem h out ''id'' (PStr (str_of lib v)))
               else h);
          h = foldl (iso_field_heap lib out) h [''created_at'', ''updated_at'']
      in (h, out))"

section \<open>ComicResponse\<close>

text \<open>
  The response model of lines 26 to 34. Its constructor takes the dictionary as keyword
  arguments: the four required fields must be strings, an optional field may be absent
  or \<open>None\<close>, and a keyword that is no field of the model is dropped. (The field names
  carry a prime here, \<open>id\<close> being a constant of the logic.) A value of another
  type than the field's is rejected (the conversions the validation library would still
  try, such as a numeric string for \<open>rating\<close>, are not modelled).
\<close>

record ComicResponse =
  id' :: string
  title' :: string
  author' :: string
  genre' :: string
  description' :: "string option"
  cover_url' :: "string option"
  rating' :: "rat option"
  tags' :: "string list option"

definition req_str :: "'dt pydict \<Rightarrow> string \<Rightarrow> string option" where
  "req_str d k = (case map_of d k of Some (PStr s) \<Rightarrow> Some s | _ \<Rightarrow> None)"

definition opt_str :: "'dt pydict \<Rightarrow> string \<Rightarrow> string option option" where
  "opt_str d k =
     (case map_of d k of
        None \<Rightarrow> Some None
      | Some PNone \<Rightarrow> Some None
      | Some (PStr s) \<Rightarrow> Some (Some s)
      | _ \<Rightarrow> None)"

definition opt_float :: "'dt pydict \<Rightarrow> string \<Rightarrow> rat option option" where
  "opt_float d k =
     (case map_of d k of
        None \<Rightarrow> Some None
      | Some PNone \<Rightarrow> Some None
      | Some (PFloat r) \<Rightarrow> Some (Some r)
      | _ \<Rightarrow> None)"

fun str_items :: "'dt pyval list \<Rightarrow> string list option" where
  "str_items [] = Some []"
| "str_items (PStr s # vs) = map_option ((#) s) (str_items vs)"
| "str_items (_ # vs) = None"

definition opt_str_list :: "'dt pydict \<Rightarrow> string \<Rightarrow> string list option option" where
  "opt_str_list d k =
     (case map_of d k of
        None \<Rightarrow> Some None
      | Some PNone \<Rightarrow> Some None
      | Some (PList vs) \<Rightarrow> map_option Some (str_items vs)
      | _ \<Rightarrow> None)"

definition ComicResponse_init :: "'dt pydict \<Rightarrow> exn + ComicResponse" where
  "ComicResponse_init d =
     (case do {
        i \<leftarrow> req_str d ''id'';
        t \<leftarrow> req_str d ''title'';
        a \<leftarrow> req_str d ''author'';
        g \<leftarrow> req_str d ''genre'';
        de \<leftarrow> opt_str d ''description'';
        cu \<leftarrow> opt_str d ''cover_url'';
        ra \<leftarrow> opt_float d ''rating'';
        ta \<leftarrow> opt_str_list d ''tags'';
        Some \<lparr>id' = i, title' = t, author' = a, genre' = g, description' = de,
              cover_url' = cu, rating' = ra, tags' = ta\<rparr>
      } of
        None \<Rightarrow> Inl ValidationError
      | Some r \<Rightarrow> Inr r)"

definition opt_val :: "('a \<Rightarrow> 'dt pyval) \<Rightarrow> 'a option \<Rightarrow> 'dt pyval" where
  "opt_val f x = (case x of None \<Rightarrow> PNone | Some y \<Rightarrow> f y)"

definition model_dump :: "ComicResponse \<Rightarrow> 'dt pydict" where
  "model_dump r =
     [(''id'', PStr (id' r)),
      (''title'', PStr (title' r)),
      (''author'', PStr (author' r)),
      (''genre'', PStr (genre' r)),
      (''description'', opt_val PStr (description' r)),
      (''cover_url'', opt_val PStr (cover_url' r)),
      (''rating'', opt_val PFloat (rating' r)),
      (''tags'', opt_val (\<lambda>ts. PList (map PStr ts)) (tags' r))]"

section \<open>The demo data\<close>

definition demo_comics :: "unit \<Rightarrow> 'dt pydict list" where
  "demo_comics u =
     [[(''id'', PStr ''demo-1''),
       (''title'', PStr ''Nova City: Neon Nights''),
       (''author'', PStr ''A. Sterling''),
       (''genre'', PStr ''Sci-Fi''),
       (''description'', PStr ''A rogue courier races through a glowing mega-city to stop a sentient virus.''),
       (''cover_url'', PStr ''https://images.unsplash.com/photo-1534088568595-a066f410bcda?q=80&w=1200&auto=format&fit=crop''),
       (''rating'', PFloat (48 / 10)),
       (''tags'', PList [PStr ''cyberpunk'', PStr ''action'', PStr ''future''])],
      [(''id'', PStr ''demo-2''),
       (''title'', PStr ''Arcane Academy''),
       (''author'', PStr ''M. Kato''),
       (''genre'', PStr ''Fantasy''),
       (''description'', PStr ''A misfit mage uncovers a conspiracy at a floating academy of spells.''),
       (''cover_url'', PStr ''https://images.unsplash.com/photo-1549880338-65ddcdfd017b?q=80&w=1200&auto=format&fit=crop''),
       (''rating'', PFloat (46 / 10)),
       (''tags'', PList [PStr ''magic'', PStr ''school'', PStr ''adventure''])],
      [(''id'', PStr ''demo-3''),
       (''title'', PStr ''Starlight Rangers''),
       (''author'', PStr ''J. Vega''),
       (''genre'', PStr ''Adventure''),
       (''description'', PStr ''Five unlikely heroes chart the unknown between galaxies.''),
       (''cover_url'', PStr ''https://images.unsplash.com/photo-1472214103451-9374bd1c798e?q=80&w=1200&auto=format&fit=crop''),
       (''rating'', PFloat (47 / 10)),
       (''tags'', PList [PStr ''space'', PStr ''team'', PStr ''epic''])],
      [(''id'', PStr ''demo-4''),
       (''title'', PStr ''Crimson Streets''),
       (''author'', PStr ''L. Noir''),
       (''genre'', PStr ''Noir''),
       (''description'', PStr ''A masked detective hunts the truth in rain-soaked alleys.''),
       (''cover_url'', PStr ''https://images.unsplash.com/photo-1501785888041-af3ef285b470?q=80&w=1200&auto=format&fit=crop''),
       (''rating'', PFloat (44 / 10)),
       (''tags'', PList [PStr ''mystery'', PStr ''crime'', PStr ''vigilante''])]]"

section \<open>The document store\<close>

text \<open>
  The global \<open>db\<close> is \<open>None\<close> or a database; of a database the service uses the one
  collection \<open>comic\<close>. Any call of the store may raise: \<open>faults\<close> is the schedule of the
  calls to come, \<open>True\<close> for a call that raises, and an empty schedule means that no
  further call raises. \<open>counter\<close> numbers the identifiers the store hands out.
\<close>

record 'dt store =
  comic :: "'dt pydict list"
  counter :: nat
  faults :: "bool list"

definition tick :: "'dt store \<Rightarrow> bool \<times> 'dt store" where
  "tick s = (case faults s of [] \<Rightarrow> (False, s) | f # fs \<Rightarrow> (f, s\<lparr>faults := fs\<rparr>))"

definition hex_digit :: "nat \<Rightarrow> char" where
  "hex_digit d = ''0123456789abcdef'' ! (d mod 16)"

fun hex_of :: "nat \<Rightarrow> nat \<Rightarrow> string" where
  "hex_of 0 n = []"
| "hex_of (Suc k) n = hex_of k (n div 16) @ [hex_digit n]"

definition oid_of_nat :: "nat \<Rightarrow> string" where
  "oid_of_nat n = hex_of 24 n"

text \<open>\<^verbatim>\<open>db["comic"].count_documents({})\<close>\<close>

definition count_documents :: "'dt store \<Rightarrow> (exn + nat) \<times> 'dt store" where
  "count_documents s =
     (let (f, s) = tick s
      in if f then (Inl StoreError, s) else (Inr (length (comic s)), s))"

text \<open>
  Modelled from the spec: \<^verbatim>\<open>create_document\<close> of \<^verbatim>\<open>database.py\<close>, which is not among the
  sources. It inserts a new document into the collection and returns the newly assigned
  identifier as a string; a failure of the store is propagated.
\<close>

definition create_document :: "'dt store \<Rightarrow> 'dt pydict \<Rightarrow> (exn + string) \<times> 'dt store" where
  "create_document s data =
     (let (f, s) = tick s
      in if f then (Inl StoreError, s)
         else (let oid = oid_of_nat (counter s)
               in (Inr oid,
                   s\<lparr>comic := comic s @ [AList.update ''_id'' (PObjectId oid) data],
                     counter := Suc (counter s)\<rparr>)))"

text \<open>
  A filter maps a field to a required value or to a regular expression with options,
  as the dictionary \<open>filt\<close> of \<^verbatim>\<open>list_comics\<close> does.
\<close>

datatype cond = Regex string string | Exactly string

type_synonym filt = "(string \<times> cond) list"

definition holds :: "'dt lib \<Rightarrow> 'dt pydict \<Rightarrow> string \<times> cond \<Rightarrow> bool" where
  "holds lib d kc =
     (case kc of
        (k, Exactly v) \<Rightarrow> map_of d k = Some (PStr v)
      | (k, Regex p opts) \<Rightarrow>
          (case map_of d k of Some (PStr t) \<Rightarrow> regex_search lib p opts t | _ \<Rightarrow> False))"

definition matches :: "'dt lib \<Rightarrow> filt \<Rightarrow> 'dt pydict \<Rightarrow> bool" where
  "matches lib f d = list_all (holds lib d) f"

text \<open>
  Modelled from the spec: \<^verbatim>\<open>get_documents\<close> of \<^verbatim>\<open>database.py\<close>, which is not among the
  sources. It returns up to \<open>limit\<close> documents matching the filter, in the store's order,
  and the empty sequence when none matches.
\<close>

definition get_documents ::
  "'dt lib \<Rightarrow> 'dt store \<Rightarrow> filt \<Rightarrow> int \<Rightarrow> (exn + 'dt pydict list) \<times> 'dt store" where
  "get_documents lib s f limit =
     (let (e, s) = tick s
      in if e then (Inl StoreError, s)
         else (Inr (take (nat limit) (filter (matches lib f) (comic s))), s))"

text \<open>
  The constructor of the store's identifier accepts 24 hexadecimal digits and raises on
  any other string; the identifier prints in lower case. (The library also takes a
  string of 24 characters in which white space separates the digits; such a string is
  malformed here.)
\<close>

definition lower_hex :: "char \<Rightarrow> char" where
  "lower_hex c = (case map_of (zip ''ABCDEF'' ''abcdef'') c of Some l \<Rightarrow> l | None \<Rightarrow> c)"

definition ObjectId :: "string \<Rightarrow> exn + string" where
  "ObjectId s =
     (if length s = 24 \<and> list_all (\<lambda>c. c \<in> set ''0123456789abcdefABCDEF'') s
      then Inr (map lower_hex s) else Inl InvalidId)"

text \<open>\<^verbatim>\<open>db["comic"].find_one({"_id": oid})\<close>\<close>

definition find_one :: "'dt store \<Rightarrow> string \<Rightarrow> (exn + 'dt pydict option) \<times> 'dt store" where
  "find_one s oid =
     (let (f, s) = tick s
      in if f then (Inl StoreError, s)
         else (Inr (find (\<lambda>d. map_of d ''_id'' = Some (PObjectId oid)) (comic s)), s))"

section \<open>The handlers\<close>

text \<open>
  A list comprehension whose element expression may raise: the first exception ends it.
\<close>

fun comprehension :: "('a \<Rightarrow> exn + 'b) \<Rightarrow> 'a list \<Rightarrow> exn + 'b list" where
  "comprehension f [] = Inr []"
| "comprehension f (x # xs) =
     (case f x of
        Inl e \<Rightarrow> Inl e
      | Inr y \<Rightarrow> (case comprehension f xs of Inl e \<Rightarrow> Inl e | Inr ys \<Rightarrow> Inr (y # ys)))"

text \<open>The slice \<^verbatim>\<open>xs[:n]\<close>: a negative \<open>n\<close> counts from the end.\<close>

definition slice_to :: "'a list \<Rightarrow> int \<Rightarrow> 'a list" where
  "slice_to xs n = (if 0 \<le> n then take (nat n) xs else take (length xs - nat (- n)) xs)"

text \<open>\<^verbatim>\<open>ComicResponse(**c).model_dump()\<close>\<close>

definition dumped :: "'dt pydict \<Rightarrow> exn + 'dt pydict" where
  "dumped c = (case ComicResponse_init c of Inl e \<Rightarrow> Inl e | Inr r \<Rightarrow> Inr (model_dump r))"

text \<open>
  Lines 68 to 76: the collection is seeded when it is counted empty; the loop over the
  demo records ends at the first exception, and the \<^verbatim>\<open>except\<close> clause drops whatever
  was raised.
\<close>

fun seed_loop :: "'dt pydict list \<Rightarrow> 'dt store \<Rightarrow> exn option \<times> 'dt store" where
  "seed_loop [] s = (None, s)"
| "seed_loop (c # cs) s =
     (case create_document s c of
        (Inl e, s) \<Rightarrow> (Some e, s)
      | (Inr new_id, s) \<Rightarrow> seed_loop cs s)"

definition seed_try :: "'dt store \<Rightarrow> exn option \<times> 'dt store" where
  "seed_try s =
     (case count_documents s of
        (Inl e, s) \<Rightarrow> (Some e, s)
      | (Inr count, s) \<Rightarrow> if count = 0 then seed_loop (demo_comics ()) s else (None, s))"

definition seed :: "'dt store \<Rightarrow> 'dt store" where
  "seed s = (case seed_try s of (Some e, s) \<Rightarrow> s | (None, s) \<Rightarrow> s)"

text \<open>Lines 78 to 83: a string is true when it is not empty.\<close>

definition build_filter :: "string option \<Rightarrow> string option \<Rightarrow> filt" where
  "build_filter q genre =
     (let filt = [];
          filt = (case q of
                    Some p \<Rightarrow> if p \<noteq> [] then AList.update ''title'' (Regex p ''i'') filt else filt
                  | None \<Rightarrow> filt);
          filt = (case genre of
                    Some g \<Rightarrow> if g \<noteq> [] then AList.update ''genre'' (Exactly g) filt else filt
                  | None \<Rightarrow> filt)
      in filt)"

text \<open>Lines 78 to 86: the read, on the store as the seeding left it.\<close>

definition read_comics ::
  "'dt lib \<Rightarrow> 'dt store \<Rightarrow> string option \<Rightarrow> string option \<Rightarrow> int \<Rightarrow>
     (exn + 'dt pydict list) \<times> 'dt store option" where
  "read_comics lib s q genre limit =
     (let filt = build_filter q genre
      in case get_documents lib s filt limit of
           (Inl e, s) \<Rightarrow> (Inl e, Some s)
         | (Inr docs, s) \<Rightarrow>
             (comprehension (\<lambda>d. dumped (serialize_document lib d)) docs, Some s))"

definition list_comics ::
  "'dt lib \<Rightarrow> 'dt store option \<Rightarrow> string option \<Rightarrow> string option \<Rightarrow> int \<Rightarrow>
     (exn + 'dt pydict list) \<times> 'dt store option" where
  "list_comics lib db q genre limit =
     (case db of
        None \<Rightarrow> (let sample = demo_comics () in (comprehension dumped (slice_to sample limit), None))
      | Some s \<Rightarrow> (let s = seed s in read_comics lib s q genre limit))"

text \<open>
  The payload of \<^verbatim>\<open>create_comic\<close> has passed the validation of the request body; it is
  the dictionary of its fields.
\<close>

definition create_comic ::
  "'dt store option \<Rightarrow> 'dt pydict \<Rightarrow> (exn + (string \<times> string) list) \<times> 'dt store option" where
  "create_comic db payload =
     (case db of
        None \<Rightarrow> (Inl (HTTPException 503 ''Database not available''), None)
      | Some s \<Rightarrow>
          (case create_document s payload of
             (Inl e, s) \<Rightarrow> (Inl e, Some s)
           | (Inr new_id, s) \<Rightarrow> (Inr [(''id'', new_id)], Some s)))"

text \<open>
  Lines 105 to 109, the body of the \<^verbatim>\<open>try\<close>. \<^verbatim>\<open>not doc\<close> holds of \<open>None\<close> and of the
  empty dictionary.
\<close>

definition get_comic_try ::
  "'dt lib \<Rightarrow> 'dt store \<Rightarrow> string \<Rightarrow> (exn + ComicResponse) \<times> 'dt store" where
  "get_comic_try lib s comic_id =
     (case ObjectId comic_id of
        Inl e \<Rightarrow> (Inl e, s)
      | Inr oid \<Rightarrow>
          (case find_one s oid of
             (Inl e, s) \<Rightarrow> (Inl e, s)
           | (Inr doc, s) \<Rightarrow>
               (case doc of
                  None \<Rightarrow> (Inl (HTTPException 404 ''Comic not found''), s)
                | Some d \<Rightarrow>
                    if d = [] then (Inl (HTTPException 404 ''Comic not found''), s)
                    else (ComicResponse_init (serialize_document lib d), s))))"

text \<open>
  \<^verbatim>\<open>except Exception\<close> of line 110 catches every exception of the body, the
  \<open>HTTPException\<close> of line 108 among them.
\<close>

definition get_comic ::
  "'dt lib \<Rightarrow> 'dt store option \<Rightarrow> string \<Rightarrow> (exn + ComicResponse) \<times> 'dt store option" where
  "get_comic lib db comic_id =
     (case db of
        None \<Rightarrow>
          (case find (\<lambda>c. map_of c ''id'' = Some (PStr comic_id)) (demo_comics () :: 'dt pydict list) of
             Some c \<Rightarrow> (ComicResponse_init c, None)
           | None \<Rightarrow> (Inl (HTTPException 404 ''Comic not found''), None))
      | Some s \<Rightarrow>
          (case get_comic_try lib s comic_id of
             (Inl e, s) \<Rightarrow> (Inl (HTTPException 400 ''Invalid comic id''), Some s)
           | (Inr r, s) \<Rightarrow> (Inr r, Some s)))"

section \<open>The endpoints: validation of the request, then the handler\<close>

text \<open>
  \<^verbatim>\<open>limit: int = Query(24, ge=1, le=100)\<close>: an omitted parameter takes the default, a
  value outside the bounds is rejected before the handler runs.
\<close>

definition Query_limit :: "int option \<Rightarrow> exn + int" where
  "Query_limit p =
     (case p of
        None \<Rightarrow> Inr 24
      | Some l \<Rightarrow> if 1 \<le> l \<and> l \<le> 100 then Inr l else Inl RequestValidationError)"

definition get_api_comics ::
  "'dt lib \<Rightarrow> 'dt store option \<Rightarrow> string option \<Rightarrow> string option \<Rightarrow> int option \<Rightarrow>
     (exn + 'dt pydict list) \<times> 'dt store option" where
  "get_api_comics lib db q genre limit =
     (case Query_limit limit of
        Inl e \<Rightarrow> (Inl e, db)
      | Inr l \<Rightarrow> list_comics lib db q genre l)"

text \<open>
  Modelled from the spec: the schema \<^verbatim>\<open>Comic\<close> of \<^verbatim>\<open>schemas.py\<close>, which is not among
  the sources and which \<^verbatim>\<open>ComicCreate\<close> inherits unchanged. Its required fields are
  \<open>title\<close>, \<open>author\<close> and \<open>genre\<close>, all strings; a body that lacks one fails validation.
\<close>

definition ComicCreate_validate :: "'dt pydict \<Rightarrow> exn + 'dt pydict" where
  "ComicCreate_validate body =
     (if list_all (\<lambda>k. req_str body k \<noteq> None) [''title'', ''author'', ''genre'']
      then Inr body else Inl RequestValidationError)"

definition post_api_comics ::
  "'dt store option \<Rightarrow> 'dt pydict \<Rightarrow> (exn + (string \<times> string) list) \<times> 'dt store option" where
  "post_api_comics db body =
     (case ComicCreate_validate body of
        Inl e \<Rightarrow> (Inl e, db)
      | Inr payload \<Rightarrow> create_comic db payload)"

text \<open>
  The status code of a response that ends in an exception: the code of an
  \<open>HTTPException\<close>, 422 for a rejected request, 500 for any exception that reaches the
  framework.
\<close>

definition status_code :: "exn \<Rightarrow> nat" where
  "status_code e =
     (case e of
        HTTPException code detail \<Rightarrow> code
      | RequestValidationError \<Rightarrow> 422
      | _ \<Rightarrow> 500)"

section \<open>A library instance for running the model\<close>

text \<open>
  To evaluate the handlers on concrete inputs, a timestamp is carried as the text its
  \<open>isoformat\<close> returns, and a pattern without metacharacters is searched as a substring,
  ignoring case under the option \<open>i\<close>. \<open>str\<close> is given on the values the examples apply
  it to: \<open>None\<close>, strings, object identifiers and timestamps.
\<close>

fun is_prefix :: "string \<Rightarrow> string \<Rightarrow> bool" where
  "is_prefix [] t = True"
| "is_prefix (c # p) [] = False"
| "is_prefix (c # p) (d # t) = (c = d \<and> is_prefix p t)"

fun contains :: "string \<Rightarrow> string \<Rightarrow> bool" where
  "contains p [] = (p = [])"
| "contains p (d # t) = (is_prefix p (d # t) \<or> contains p t)"

definition lower :: "char \<Rightarrow> char" where
  "lower c =
     (case map_of (zip ''ABCDEFGHIJKLMNOPQRSTUVWXYZ'' ''abcdefghijklmnopqrstuvwxyz'') c of
        Some l \<Rightarrow> l
      | None \<Rightarrow> c)"

definition icontains :: "string \<Rightarrow> string \<Rightarrow> bool" where
  "icontains p t = contains (map lower p) (map lower t)"

definition str_text :: "string pyval \<Rightarrow> string" where
  "str_text v =
     (case v of
        PNone \<Rightarrow> ''None''
      | PStr s \<Rightarrow> s
      | PObjectId h \<Rightarrow> h
      | PDatetime t \<Rightarrow> map (\<lambda>c. if c = CHR ''T'' then CHR '' '' else c) t
      | _ \<Rightarrow> [])"

definition text_lib :: "string lib" where
  "text_lib =
     \<lparr>str_of = str_text,
      isoformat = (\<lambda>t. t),
      regex_search = (\<lambda>p opts t. if opts = ''i'' then icontains p t else contains p t)\<rparr>"

section \<open>Example stores\<close>

text \<open>
  A store that holds nothing, and a store that holds one document written with a
  timestamp, for running the handlers.
\<close>

definition empty_store :: "string store" where
  "empty_store = \<lparr>comic = [], counter = 0, faults = []\<rparr>"

definition stored_doc :: "string pydict" where
  "stored_doc =
     [(''_id'', PObjectId ''65f0a1b2c3d4e5f601234567''),
      (''title'', PStr ''Arcane Academy''),
      (''author'', PStr ''M. Kato''),
      (''genre'', PStr ''Fantasy''),
      (''created_at'', PDatetime ''2024-03-12T09:30:00'')]"

definition one_doc_store :: "string store" where
  "one_doc_store = \<lparr>comic = [stored_doc], counter = 1, faults = []\<rparr>"

text \<open>What the listing answers for \<open>stored_doc\<close>, and a heap that holds \<open>stored_doc\<close> at address 0.\<close>

definition stored_doc_response :: "string pydict" where
  "stored_doc_response =
     [(''id'', PStr ''65f0a1b2c3d4e5f601234567''),
      (''title'', PStr ''Arcane Academy''),
      (''author'', PStr ''M. Kato''),
      (''genre'', PStr ''Fantasy''),
      (''description'', PNone),
      (''cover_url'', PNone),
      (''rating'', PNone),
      (''tags'', PNone)]"

definition example_heap :: "string heap" where
  "example_heap = \<lparr>cells = (\<lambda>a. if a = 0 then stored_doc else []), top = 1\<rparr>"

text \<open>A request body with the three required fields, and the store after its insertion.\<close>

definition example_body :: "string pydict" where
  "example_body =
     [(''title'', PStr ''Arcane Academy''),
      (''author'', PStr ''M. Kato''),
      (''genre'', PStr ''Fantasy'')]"

definition body_without_title :: "string pydict" where
  "body_without_title = [(''author'', PStr ''M. Kato''), (''genre'', PStr ''Fantasy'')]"

definition store_after_create :: "string store" where
  "store_after_create =
     \<lparr>comic = [[(''title'', PStr ''Arcane Academy''),
                 (''author'', PStr ''M. Kato''),
                 (''genre'', PStr ''Fantasy''),
                 (''_id'', PObjectId ''000000000000000000000000'')]],
      counter = 1, faults = []\<rparr>"

text \<open>
  A store whose third call raises: counting and the first insertion succeed, the second
  insertion fails.
\<close>

definition faulty_store :: "string store" where
  "faulty_store = \<lparr>comic = [], counter = 0, faults = [False, False, True]\<rparr>"

text \<open>
  The documents \<open>cs\<close> as a store keeps them when it inserts them one after the other,
  the first under the identifier of number \<open>n\<close>.
\<close>

fun with_ids :: "nat \<Rightarrow> 'dt pydict list \<Rightarrow> 'dt pydict list" where
  "with_ids n [] = []"
| "with_ids n (c # cs) =
     AList.update ''_id'' (PObjectId (oid_of_nat n)) c # with_ids (Suc n) cs"

section \<open>Facts about the building blocks\<close>

lemma comprehension_length: "comprehension f xs = Inr ys \<Longrightarrow> length ys = length xs"
  by (induction xs arbitrary: ys) (auto split: sum.splits)

lemma comprehension_source:
  "comprehension f xs = Inr ys \<Longrightarrow> y \<in> set ys \<Longrightarrow> \<exists>x\<in>set xs. f x = Inr y"
  by (induction xs arbitrary: ys) (auto split: sum.splits)

lemma comprehension_raises:
  "comprehension f xs = Inl e \<Longrightarrow> \<exists>x\<in>set xs. f x = Inl e"
  by (induction xs) (auto split: sum.splits)

lemma comprehension_map:
  "(\<And>x. x \<in> set xs \<Longrightarrow> f x = Inr (g x)) \<Longrightarrow> comprehension f xs = Inr (map g xs)"
  by (induction xs) auto

lemma dumped_raises: "dumped c = Inl e \<Longrightarrow> e = ValidationError"
  by (auto simp: dumped_def ComicResponse_init_def split: sum.splits option.splits)

lemma dumped_demo: "c \<in> set (demo_comics ()) \<Longrightarrow> dumped c = Inr c"
  by (auto simp: demo_comics_def dumped_def ComicResponse_init_def model_dump_def req_str_def
      opt_str_def opt_float_def opt_str_list_def opt_val_def)

lemma length_demo_comics: "length (demo_comics ()) = 4"
  by (simp add: demo_comics_def)

lemma list_comics_unavailable:
  assumes "0 \<le> limit"
  shows "list_comics lib None q genre limit = (Inr (take (nat limit) (demo_comics ())), None)"
proof -
  have "comprehension dumped (take (nat limit) (demo_comics ())) =
        Inr (map (\<lambda>c. c) (take (nat limit) (demo_comics ())))"
    by (rule comprehension_map) (auto dest: in_set_takeD intro: dumped_demo)
  with assms show ?thesis
    by (simp add: list_comics_def slice_to_def)
qed

lemma get_documents_length:
  "get_documents lib s f limit = (Inr docs, s') \<Longrightarrow> length docs \<le> nat limit"
  by (auto simp: get_documents_def split: prod.splits if_splits)

lemma get_documents_raises:
  "get_documents lib s f limit = (Inl e, s') \<Longrightarrow> e = StoreError"
  by (auto simp: get_documents_def split: prod.splits if_splits)

lemma list_comics_length:
  assumes "0 \<le> limit" and "fst (list_comics lib db q genre limit) = Inr rs"
  shows "length rs \<le> nat limit"
proof (cases db)
  case None
  with assms show ?thesis by (auto simp: list_comics_unavailable)
next
  case (Some s)
  with assms obtain docs s' where
    g: "get_documents lib (seed s) (build_filter q genre) limit = (Inr docs, s')" and
    c: "comprehension (\<lambda>d. dumped (serialize_document lib d)) docs = Inr rs"
    by (auto simp: list_comics_def read_comics_def split: prod.splits sum.splits)
  from c have "length rs = length docs" by (rule comprehension_length)
  with get_documents_length [OF g] show ?thesis by simp
qed

lemma list_comics_raises:
  assumes "0 \<le> limit" and "fst (list_comics lib db q genre limit) = Inl e"
  shows "e = StoreError \<or> e = ValidationError"
proof (cases db)
  case None
  with assms show ?thesis by (simp add: list_comics_unavailable)
next
  case (Some s)
  show ?thesis
  proof (cases "get_documents lib (seed s) (build_filter q genre) limit")
    case (Pair r s')
    show ?thesis
    proof (cases r)
      case (Inl e')
      with Pair Some assms have "e = e'"
        by (simp add: list_comics_def read_comics_def)
      with Pair Inl get_documents_raises show ?thesis by blast
    next
      case (Inr docs)
      with Pair Some assms
      have "comprehension (\<lambda>d. dumped (serialize_document lib d)) docs = Inl e"
        by (simp add: list_comics_def read_comics_def)
      then obtain d where "dumped (serialize_document lib d) = Inl e"
        by (blast dest: comprehension_raises)
      then show ?thesis by (simp add: dumped_raises)
    qed
  qed
qed

section \<open>The listing endpoint\<close>

text \<open>
  C4. When the store handle is \<open>None\<close>, the listing returns exactly the first \<open>limit\<close>
  demo records, in the order of the demo list, whatever \<open>q\<close> and \<open>genre\<close> are, and
  raises nothing; with \<open>limit\<close> omitted it returns the whole demo list.
\<close>

theorem unavailable_listing_is_demo_prefix:
  assumes "1 \<le> L" and "L \<le> 100"
  shows "get_api_comics lib None q genre (Some L) =
           (Inr (take (nat L) (demo_comics ())), None) \<and>
         get_api_comics lib None q genre None = (Inr (demo_comics ()), None)"
  using assms
  by (simp add: get_api_comics_def Query_limit_def list_comics_unavailable length_demo_comics)

theorem unavailable_listing_is_demo_prefix_witness:
  "(1::int) \<le> 2 \<and> (2::int) \<le> 100 \<and>
   get_api_comics text_lib None (Some ''Arcane'') (Some ''Noir'') (Some 2) =
     (Inr (take 2 (demo_comics ())), None)"
  using unavailable_listing_is_demo_prefix [of 2 text_lib "Some ''Arcane''" "Some ''Noir''"]
  by simp

text \<open>
  C9. The demo list has exactly four records, so with the store unavailable a listing
  with limit \<open>L\<close> in 1..100 has exactly \<open>min L 4\<close> records, and fewer than \<open>L\<close> when
  \<open>L\<close> exceeds 4.
\<close>

theorem unavailable_listing_length:
  assumes "1 \<le> L" and "L \<le> 100"
  shows "length (demo_comics () :: 'dt pydict list) = 4 \<and>
         (\<exists>rs. get_api_comics (lib :: 'dt lib) None q genre (Some L) = (Inr rs, None) \<and>
               length rs = min (nat L) 4 \<and> (4 < L \<longrightarrow> length rs < nat L))"
  using assms
  by (auto simp: get_api_comics_def Query_limit_def list_comics_unavailable length_demo_comics)

theorem unavailable_listing_length_witness:
  "(1::int) \<le> 10 \<and> (10::int) \<le> 100 \<and>
   (\<exists>rs. get_api_comics text_lib None None None (Some 10) = (Inr rs, None) \<and>
         length rs = 4 \<and> length rs < 10)"
  using unavailable_listing_length [of 10 text_lib None None]
  by simp

text \<open>
  C3. For an integer \<open>L\<close> in 1..100 the listing, when it returns, returns at most \<open>L\<close>
  records, and it does return when the store is unavailable; for \<open>L\<close> outside 1..100 the
  request is rejected by validation, with the store untouched, and not clamped; an
  omitted limit is the limit 24.
\<close>

theorem listing_limit:
  "(1 \<le> L \<and> L \<le> 100 \<longrightarrow>
      (\<forall>rs. fst (get_api_comics lib db q genre (Some L)) = Inr rs \<longrightarrow> length rs \<le> nat L) \<and>
      fst (get_api_comics lib db q genre (Some L)) \<noteq> Inl RequestValidationError \<and>
      (\<exists>rs. fst (get_api_comics lib None q genre (Some L)) = Inr rs)) \<and>
   (L < 1 \<or> 100 < L \<longrightarrow>
      get_api_comics lib db q genre (Some L) = (Inl RequestValidationError, db)) \<and>
   get_api_comics lib db q genre None = get_api_comics lib db q genre (Some 24)"
proof (intro conjI impI allI)
  fix rs
  assume "1 \<le> L \<and> L \<le> 100" and "fst (get_api_comics lib db q genre (Some L)) = Inr rs"
  then show "length rs \<le> nat L"
    using list_comics_length [of L lib db q genre rs]
    by (simp add: get_api_comics_def Query_limit_def)
next
  assume r: "1 \<le> L \<and> L \<le> 100"
  show "fst (get_api_comics lib db q genre (Some L)) \<noteq> Inl RequestValidationError"
  proof
    assume "fst (get_api_comics lib db q genre (Some L)) = Inl RequestValidationError"
    with r have "fst (list_comics lib db q genre L) = Inl RequestValidationError"
      by (simp add: get_api_comics_def Query_limit_def)
    with r list_comics_raises [of L lib db q genre RequestValidationError]
    show False by simp
  qed
next
  assume "1 \<le> L \<and> L \<le> 100"
  then show "\<exists>rs. fst (get_api_comics lib None q genre (Some L)) = Inr rs"
    by (simp add: get_api_comics_def Query_limit_def list_comics_unavailable)
next
  assume "L < 1 \<or> 100 < L"
  then show "get_api_comics lib db q genre (Some L) = (Inl RequestValidationError, db)"
    by (auto simp: get_api_comics_def Query_limit_def)
next
  show "get_api_comics lib db q genre None = get_api_comics lib db q genre (Some 24)"
    by (simp add: get_api_comics_def Query_limit_def)
qed


theorem listing_limit_witness:
  "length [stored_doc] \<le> nat 1 \<and>
   get_api_comics text_lib (Some one_doc_store) None None (Some 101) =
     (Inl RequestValidationError, Some one_doc_store) \<and>
   get_api_comics text_lib (Some one_doc_store) None None (Some 0) =
     (Inl RequestValidationError, Some one_doc_store)"
proof -
  have run: "fst (get_api_comics text_lib (Some one_doc_store) None None (Some 1)) =
      Inr [[(''id'', PStr ''65f0a1b2c3d4e5f601234567''), (''title'', PStr ''Arcane Academy''),
            (''author'', PStr ''M. Kato''), (''genre'', PStr ''Fantasy''),
            (''description'', PNone), (''cover_url'', PNone), (''rating'', PNone),
            (''tags'', PNone)]]"
    by (simp add: get_api_comics_def Query_limit_def list_comics_def read_comics_def seed_def
        seed_try_def count_documents_def tick_def get_documents_def build_filter_def
        matches_def serialize_document_def rename_id_def iso_field_def dumped_def
        ComicResponse_init_def model_dump_def req_str_def opt_str_def opt_float_def
        opt_str_list_def opt_val_def text_lib_def str_text_def one_doc_store_def
        stored_doc_def)
  from listing_limit [of 1 text_lib "Some one_doc_store" None None] run
  have "length [stored_doc] \<le> nat 1" by simp
  moreover from listing_limit [of 101 text_lib "Some one_doc_store" None None]
  have "get_api_comics text_lib (Some one_doc_store) None None (Some 101) =
     (Inl RequestValidationError, Some one_doc_store)" by simp
  moreover from listing_limit [of 0 text_lib "Some one_doc_store" None None]
  have "get_api_comics text_lib (Some one_doc_store) None None (Some 0) =
     (Inl RequestValidationError, Some one_doc_store)" by simp
  ultimately show ?thesis by simp
qed

section \<open>Reading one comic\<close>

lemma get_comic_available_error:
  "fst (get_comic lib (Some s) comic_id) = Inl e \<Longrightarrow> e = HTTPException 400 ''Invalid comic id''"
  by (auto simp: get_comic_def split: prod.splits sum.splits)

text \<open>
  C1. With the store available, a well-formed identifier that no document carries makes
  line 108 raise the not-found exception inside the \<^verbatim>\<open>try\<close>; the handler of line 110
  catches it and the request ends with status 400 and detail "Invalid comic id", the
  answer a malformed identifier gets. Here the identifier is 24 zeros and the collection
  is empty.
\<close>

theorem get_comic_unknown_id_answers_400:
  "ObjectId ''000000000000000000000000'' = Inr ''000000000000000000000000'' \<and>
   fst (find_one empty_store ''000000000000000000000000'') = Inr None \<and>
   fst (get_comic_try text_lib empty_store ''000000000000000000000000'') =
     Inl (HTTPException 404 ''Comic not found'') \<and>
   fst (get_comic text_lib (Some empty_store) ''000000000000000000000000'') =
     Inl (HTTPException 400 ''Invalid comic id'') \<and>
   fst (get_comic text_lib (Some empty_store) ''not-an-id'') =
     Inl (HTTPException 400 ''Invalid comic id'')"
  by (simp add: get_comic_def get_comic_try_def ObjectId_def lower_hex_def find_one_def
      tick_def empty_store_def)

section \<open>Creating a comic\<close>

lemma oid_of_nat_0: "oid_of_nat 0 = ''000000000000000000000000''"
  by code_simp

text \<open>
  C6. A body that lacks \<open>title\<close>, \<open>author\<close> or \<open>genre\<close> is rejected by validation, a
  client error, and the store is as it was: \<^verbatim>\<open>create_document\<close> is not reached.
\<close>

theorem create_without_required_field:
  assumes "k \<in> {''title'', ''author'', ''genre''}" and "map_of body k = None"
  shows "post_api_comics db body = (Inl RequestValidationError, db) \<and>
         status_code RequestValidationError = 422"
  using assms
  by (auto simp: post_api_comics_def ComicCreate_validate_def req_str_def status_code_def)

theorem create_without_required_field_witness:
  "''title'' \<in> {''title'', ''author'', ''genre''} \<and>
   map_of [(''author'', PStr ''M. Kato''), (''genre'', PStr ''Fantasy'')] ''title'' = None \<and>
   post_api_comics (Some empty_store) [(''author'', PStr ''M. Kato''), (''genre'', PStr ''Fantasy'')] =
     (Inl RequestValidationError, Some empty_store)"
  using create_without_required_field
    [of "''title''" "[(''author'', PStr ''M. Kato''), (''genre'', PStr ''Fantasy'')]"
        "Some empty_store"]
  by simp

text \<open>
  C7, as the spec states it, fails: with the store handle \<open>None\<close>, a request whose body
  lacks \<open>title\<close> is rejected by validation, status 422, before \<^verbatim>\<open>create_comic\<close> runs,
  and so does not end in 503.
\<close>

theorem create_unavailable_invalid_body_422:
  "map_of body_without_title ''title'' = None \<and>
   post_api_comics None body_without_title = (Inl RequestValidationError, None) \<and>
   status_code RequestValidationError = 422 \<and>
   status_code (HTTPException 503 ''Database not available'') = 503"
  by (simp add: post_api_comics_def ComicCreate_validate_def req_str_def status_code_def
      body_without_title_def)

text \<open>
  C7, amended. With the store handle \<open>None\<close>, \<^verbatim>\<open>create_comic\<close> raises the exception of
  status 503 for every payload and falls back on nothing, so every request whose body
  passes validation ends so; a body that fails validation is rejected before the
  handler runs, whatever the store handle, and the store is as it was. With a store, a
  body that passes validation and an identifier returned by \<^verbatim>\<open>create_document\<close>, the
  response of the handler, and of the endpoint, is the dictionary with the one key \<open>id\<close>
  and that identifier.
\<close>

theorem create_comic_unavailable_or_new_id:
  "create_comic None payload = (Inl (HTTPException 503 ''Database not available''), None) \<and>
   (ComicCreate_validate body = Inr payload \<longrightarrow>
      post_api_comics None body = (Inl (HTTPException 503 ''Database not available''), None)) \<and>
   (ComicCreate_validate body = Inl e \<longrightarrow> post_api_comics db body = (Inl e, db)) \<and>
   (create_document s payload = (Inr new_id, s') \<longrightarrow>
      create_comic (Some s) payload = (Inr [(''id'', new_id)], Some s')) \<and>
   (ComicCreate_validate body = Inr payload \<and> create_document s payload = (Inr new_id, s') \<longrightarrow>
      post_api_comics (Some s) body = (Inr [(''id'', new_id)], Some s'))"
  by (simp add: create_comic_def post_api_comics_def)

theorem create_comic_unavailable_or_new_id_witness:
  "ComicCreate_validate example_body = Inr example_body \<and>
   post_api_comics None example_body =
     (Inl (HTTPException 503 ''Database not available''), None) \<and>
   ComicCreate_validate body_without_title = Inl RequestValidationError \<and>
   post_api_comics (Some empty_store) body_without_title =
     (Inl RequestValidationError, Some empty_store) \<and>
   create_document empty_store example_body =
     (Inr ''000000000000000000000000'', store_after_create) \<and>
   create_comic (Some empty_store) example_body =
     (Inr [(''id'', ''000000000000000000000000'')], Some store_after_create) \<and>
   post_api_comics (Some empty_store) example_body =
     (Inr [(''id'', ''000000000000000000000000'')], Some store_after_create)"
proof -
  have valid: "ComicCreate_validate example_body = Inr example_body"
    by (simp add: ComicCreate_validate_def req_str_def example_body_def)
  have invalid: "ComicCreate_validate body_without_title = Inl RequestValidationError"
    by (simp add: ComicCreate_validate_def req_str_def body_without_title_def)
  have run: "create_document empty_store example_body =
      (Inr ''000000000000000000000000'', store_after_create)"
    by (simp add: create_document_def tick_def empty_store_def oid_of_nat_0 Let_def
        example_body_def store_after_create_def)
  from create_comic_unavailable_or_new_id
    [of example_body example_body RequestValidationError "Some empty_store" empty_store
        "''000000000000000000000000''" store_after_create]
  have a: "post_api_comics None example_body =
          (Inl (HTTPException 503 ''Database not available''), None)"
    and b: "create_comic (Some empty_store) example_body =
          (Inr [(''id'', ''000000000000000000000000'')], Some store_after_create)"
    and c: "post_api_comics (Some empty_store) example_body =
          (Inr [(''id'', ''000000000000000000000000'')], Some store_after_create)"
    using valid run by blast+
  from create_comic_unavailable_or_new_id
    [of example_body body_without_title RequestValidationError "Some empty_store" empty_store
        "''000000000000000000000000''" store_after_create]
  have d: "post_api_comics (Some empty_store) body_without_title =
          (Inl RequestValidationError, Some empty_store)"
    using invalid by blast
  from valid invalid run a b c d show ?thesis by blast
qed

section \<open>Serialization\<close>

lemma map_of_iso_field:
  "map_of (iso_field lib out k) k' =
     (if k' = k
      then (case map_of out k of Some (PDatetime d) \<Rightarrow> Some (PStr (isoformat lib d)) | x \<Rightarrow> x)
      else map_of out k')"
  by (auto simp: iso_field_def update_conv' split: option.splits pyval.splits)

lemma map_of_rename_id:
  "map_of (rename_id lib out) k =
     (case map_of out ''_id'' of
        None \<Rightarrow> map_of out k
      | Some v \<Rightarrow>
          if k = ''id'' then Some (PStr (str_of lib v))
          else if k = ''_id'' then None else map_of out k)"
  by (auto simp: rename_id_def update_conv' delete_conv' split: option.splits)

lemma map_of_serialize_document:
  "map_of (serialize_document lib doc) k =
     (if k = ''created_at'' \<or> k = ''updated_at''
      then (case map_of (rename_id lib doc) k of
              Some (PDatetime d) \<Rightarrow> Some (PStr (isoformat lib d))
            | x \<Rightarrow> x)
      else map_of (rename_id lib doc) k)"
  by (auto simp: serialize_document_def map_of_iso_field split: option.splits pyval.splits)

lemma dumped_keys:
  "dumped c = Inr r \<Longrightarrow>
   map fst r = [''id'', ''title'', ''author'', ''genre'', ''description'', ''cover_url'',
                ''rating'', ''tags'']"
  by (auto simp: dumped_def model_dump_def split: sum.splits)

lemma listing_of_one_doc_store:
  "list_comics text_lib (Some one_doc_store) None None 24 =
     (Inr [stored_doc_response], Some one_doc_store)"
  by (simp add: list_comics_def read_comics_def seed_def seed_try_def count_documents_def
      tick_def get_documents_def build_filter_def matches_def serialize_document_def
      rename_id_def iso_field_def dumped_def ComicResponse_init_def model_dump_def req_str_def
      opt_str_def opt_float_def opt_str_list_def opt_val_def text_lib_def str_text_def
      one_doc_store_def stored_doc_def stored_doc_response_def)

text \<open>
  C2, as the spec states it, fails: a stored document with a \<open>created_at\<close> timestamp is
  listed without any \<open>created_at\<close>, because the response is the dump of a
  \<open>ComicResponse\<close>, which has no such field.
\<close>

theorem timestamp_absent_from_response:
  "map_of stored_doc ''created_at'' = Some (PDatetime ''2024-03-12T09:30:00'') \<and>
   comic one_doc_store = [stored_doc] \<and>
   fst (list_comics text_lib (Some one_doc_store) None None 24) = Inr [stored_doc_response] \<and>
   map_of stored_doc_response ''created_at'' = None"
  by (simp add: listing_of_one_doc_store)
    (simp add: stored_doc_def stored_doc_response_def one_doc_store_def)

text \<open>
  C2, amended. \<^verbatim>\<open>serialize_document\<close> renders each of \<open>created_at\<close> and \<open>updated_at\<close>
  that holds a timestamp as the string \<open>isoformat\<close> gives and leaves any other value
  of these keys as it is; it puts the value of \<open>_id\<close>, as a string, under \<open>id\<close> and removes
  \<open>_id\<close>. The response built from the result has the eight keys of \<open>ComicResponse\<close>
  and no other, so it carries no timestamp.
\<close>

theorem serialize_document_fields:
  "(k = ''created_at'' \<or> k = ''updated_at'' \<longrightarrow>
      (map_of doc k = Some (PDatetime d) \<longrightarrow>
         map_of (serialize_document lib doc) k = Some (PStr (isoformat lib d))) \<and>
      ((\<forall>t. map_of doc k \<noteq> Some (PDatetime t)) \<longrightarrow>
         map_of (serialize_document lib doc) k = map_of doc k)) \<and>
   (map_of doc ''_id'' = Some v \<longrightarrow>
      map_of (serialize_document lib doc) ''id'' = Some (PStr (str_of lib v)) \<and>
      map_of (serialize_document lib doc) ''_id'' = None) \<and>
   (dumped (serialize_document lib doc) = Inr r \<longrightarrow>
      map fst r = [''id'', ''title'', ''author'', ''genre'', ''description'', ''cover_url'',
                   ''rating'', ''tags''])"
proof (intro conjI impI)
  assume "k = ''created_at'' \<or> k = ''updated_at''" and "map_of doc k = Some (PDatetime d)"
  then show "map_of (serialize_document lib doc) k = Some (PStr (isoformat lib d))"
    by (auto simp: map_of_serialize_document map_of_rename_id split: option.splits)
next
  assume "k = ''created_at'' \<or> k = ''updated_at''" and "\<forall>t. map_of doc k \<noteq> Some (PDatetime t)"
  then show "map_of (serialize_document lib doc) k = map_of doc k"
    by (auto simp: map_of_serialize_document map_of_rename_id split: option.splits pyval.splits)
next
  assume "map_of doc ''_id'' = Some v"
  then show "map_of (serialize_document lib doc) ''id'' = Some (PStr (str_of lib v))"
    by (simp add: map_of_serialize_document map_of_rename_id)
next
  assume "map_of doc ''_id'' = Some v"
  then show "map_of (serialize_document lib doc) ''_id'' = None"
    by (simp add: map_of_serialize_document map_of_rename_id)
next
  assume "dumped (serialize_document lib doc) = Inr r"
  then show "map fst r = [''id'', ''title'', ''author'', ''genre'', ''description'',
                 ''cover_url'', ''rating'', ''tags'']"
    by (rule dumped_keys)
qed

theorem serialize_document_fields_witness:
  "map_of stored_doc ''created_at'' = Some (PDatetime ''2024-03-12T09:30:00'') \<and>
   map_of (serialize_document text_lib stored_doc) ''created_at'' =
     Some (PStr ''2024-03-12T09:30:00'') \<and>
   map_of stored_doc ''_id'' = Some (PObjectId ''65f0a1b2c3d4e5f601234567'') \<and>
   map_of (serialize_document text_lib stored_doc) ''id'' =
     Some (PStr ''65f0a1b2c3d4e5f601234567'') \<and>
   map_of (serialize_document text_lib stored_doc) ''_id'' = None \<and>
   dumped (serialize_document text_lib stored_doc) = Inr stored_doc_response \<and>
   map fst stored_doc_response =
     [''id'', ''title'', ''author'', ''genre'', ''description'', ''cover_url'', ''rating'',
      ''tags'']"
proof -
  have a: "map_of stored_doc ''created_at'' = Some (PDatetime ''2024-03-12T09:30:00'')"
    and b: "map_of stored_doc ''_id'' = Some (PObjectId ''65f0a1b2c3d4e5f601234567'')"
    by (simp_all add: stored_doc_def)
  have c: "dumped (serialize_document text_lib stored_doc) = Inr stored_doc_response"
    by (simp add: serialize_document_def rename_id_def iso_field_def dumped_def
        ComicResponse_init_def model_dump_def req_str_def opt_str_def opt_float_def
        opt_str_list_def opt_val_def text_lib_def str_text_def stored_doc_def
        stored_doc_response_def)
  from serialize_document_fields
    [of "''created_at''" stored_doc "''2024-03-12T09:30:00''" text_lib
        "PObjectId ''65f0a1b2c3d4e5f601234567''" stored_doc_response] a b c
  show ?thesis by (simp add: text_lib_def str_text_def)
qed

text \<open>
  C10. \<^verbatim>\<open>serialize_document\<close> works on a copy: the dictionary it was given, and every
  other dictionary allocated before the call, is the same after it; the dictionary it
  returns is a new one, holds what the function computes from the contents of the
  argument, and has no key \<open>_id\<close>.
\<close>

theorem serialize_document_leaves_input:
  assumes "doc < top h" and "serialize_document_heap lib h doc = (h', out)"
  shows "cells h' doc = cells h doc \<and>
         (\<forall>a. a < top h \<longrightarrow> cells h' a = cells h a) \<and>
         out \<noteq> doc \<and>
         cells h' out = serialize_document lib (cells h doc) \<and>
         map_of (cells h' out) ''_id'' = None"
proof -
  define h1 where "h1 = h\<lparr>cells := (cells h)(top h := cells h doc), top := Suc (top h)\<rparr>"
  define h2 where "h2 =
     (if dict_contains h1 (top h) ''_id''
      then dict_setitem (fst (dict_pop h1 (top h) ''_id'')) (top h) ''id''
             (PStr (str_of lib (snd (dict_pop h1 (top h) ''_id''))))
      else h1)"
  have "serialize_document_heap lib h doc =
          (foldl (iso_field_heap lib (top h)) h2 [''created_at'', ''updated_at''], top h)"
    by (simp add: serialize_document_heap_def dict_copy_def Let_def split_beta h1_def h2_def)
  with assms(2) have out: "out = top h"
    and h': "h' = foldl (iso_field_heap lib (top h)) h2 [''created_at'', ''updated_at'']"
    by auto
  have iso_other: "cells (iso_field_heap lib (top h) g k) a = cells g a" if "a \<noteq> top h" for g k a
    using that by (auto simp: iso_field_heap_def dict_setitem_def split: option.splits pyval.splits)
  have iso_out: "cells (iso_field_heap lib (top h) g k) (top h) = iso_field lib (cells g (top h)) k" for g k
    by (auto simp: iso_field_heap_def iso_field_def dict_setitem_def split: option.splits pyval.splits)
  have h2_other: "cells h2 a = cells h a" if "a \<noteq> top h" for a
    using that by (auto simp: h2_def h1_def dict_copy_def dict_pop_def dict_setitem_def)
  have h2_out: "cells h2 (top h) = rename_id lib (cells h doc)"
    by (auto simp: h2_def h1_def dict_copy_def dict_pop_def dict_setitem_def dict_contains_def
        rename_id_def split: option.splits)
  have frame: "cells h' a = cells h a" if "a < top h" for a
    using that by (simp add: h' iso_other h2_other)
  have result: "cells h' out = serialize_document lib (cells h doc)"
    by (simp add: h' out iso_out h2_out serialize_document_def)
  have no_id: "map_of (serialize_document lib (cells h doc)) ''_id'' = None"
    by (simp add: map_of_serialize_document map_of_rename_id split: option.splits)
  from frame assms(1) out result no_id show ?thesis by auto
qed

theorem serialize_document_leaves_input_witness:
  "(0::nat) < top example_heap \<and>
   cells (fst (serialize_document_heap text_lib example_heap 0)) 0 = stored_doc \<and>
   snd (serialize_document_heap text_lib example_heap 0) = 1 \<and>
   map_of (cells (fst (serialize_document_heap text_lib example_heap 0)) 1) ''_id'' = None \<and>
   map_of stored_doc ''_id'' = Some (PObjectId ''65f0a1b2c3d4e5f601234567'')"
proof -
  have t: "(0::nat) < top example_heap" and c: "cells example_heap 0 = stored_doc"
    by (simp_all add: example_heap_def)
  have o: "snd (serialize_document_heap text_lib example_heap 0) = 1"
    by (simp add: serialize_document_heap_def dict_copy_def example_heap_def split: prod.splits)
  have p: "serialize_document_heap text_lib example_heap 0 =
        (fst (serialize_document_heap text_lib example_heap 0),
         snd (serialize_document_heap text_lib example_heap 0))" by simp
  have i: "map_of stored_doc ''_id'' = Some (PObjectId ''65f0a1b2c3d4e5f601234567'')"
    by (simp add: stored_doc_def)
  from serialize_document_leaves_input [OF t p]
  have a: "cells (fst (serialize_document_heap text_lib example_heap 0)) 0 =
           cells example_heap 0"
    and b: "map_of (cells (fst (serialize_document_heap text_lib example_heap 0))
                      (snd (serialize_document_heap text_lib example_heap 0))) ''_id'' = None"
    by blast+
  from a b c o i t show ?thesis by simp
qed


section \<open>Seeding\<close>

lemma create_document_ok:
  "faults s = [] \<Longrightarrow>
   create_document s c =
     (Inr (oid_of_nat (counter s)),
      s\<lparr>comic := comic s @ [AList.update ''_id'' (PObjectId (oid_of_nat (counter s))) c],
        counter := Suc (counter s)\<rparr>)"
  by (simp add: create_document_def tick_def Let_def)

lemma seed_loop_ok:
  "faults s = [] \<Longrightarrow>
   seed_loop cs s =
     (None, s\<lparr>comic := comic s @ with_ids (counter s) cs, counter := counter s + length cs\<rparr>)"
proof (induction cs arbitrary: s)
  case Nil
  then show ?case by simp
next
  case (Cons c cs)
  let ?s = "s\<lparr>comic := comic s @ [AList.update ''_id'' (PObjectId (oid_of_nat (counter s))) c],
               counter := Suc (counter s)\<rparr>"
  from Cons.prems have "faults ?s = []" by simp
  from Cons.IH [OF this] Cons.prems show ?case
    by (simp add: create_document_ok)
qed

lemma seed_ok:
  assumes "comic s = []" and "faults s = []"
  shows "seed s = s\<lparr>comic := with_ids (counter s) (demo_comics ()), counter := counter s + 4\<rparr>"
  using assms
  by (simp add: seed_def seed_try_def count_documents_def tick_def seed_loop_ok
      length_demo_comics)

lemma create_document_docs:
  "create_document s c = (r, s') \<Longrightarrow> d \<in> set (comic s') \<Longrightarrow>
   d \<in> set (comic s) \<or> (\<exists>oid. d = AList.update ''_id'' (PObjectId oid) c)"
  by (auto simp: create_document_def tick_def Let_def split: list.splits if_splits)

lemma seed_loop_docs:
  "d \<in> set (comic (snd (seed_loop cs s))) \<Longrightarrow>
   d \<in> set (comic s) \<or> (\<exists>c oid. c \<in> set cs \<and> d = AList.update ''_id'' (PObjectId oid) c)"
proof (induction cs arbitrary: s)
  case Nil
  then show ?case by simp
next
  case (Cons c cs)
  obtain r s1 where cd: "create_document s c = (r, s1)" by (cases "create_document s c")
  show ?case
  proof (cases r)
    case (Inl e)
    with cd Cons.prems have "d \<in> set (comic s1)" by simp
    with create_document_docs [OF cd] show ?thesis by auto
  next
    case (Inr new_id)
    with cd Cons.prems have "d \<in> set (comic (snd (seed_loop cs s1)))" by simp
    from Cons.IH [OF this] create_document_docs [OF cd] show ?thesis by auto
  qed
qed

lemma seed_docs:
  assumes "comic s = []" and "d \<in> set (comic (seed s))"
  shows "\<exists>c oid. c \<in> set (demo_comics ()) \<and> d = AList.update ''_id'' (PObjectId oid) c"
proof -
  obtain r s1 where cnt: "count_documents s = (r, s1)" by (cases "count_documents s")
  then have s1: "comic s1 = []"
    using assms(1) by (auto simp: count_documents_def tick_def split: list.splits if_splits)
  have "d \<in> set (comic s1) \<or> d \<in> set (comic (snd (seed_loop (demo_comics ()) s1)))"
    using assms(2) cnt
    by (cases r) (auto simp: seed_def seed_try_def split: prod.splits option.splits if_splits)
  with s1 seed_loop_docs [of d "demo_comics ()" s1] show ?thesis by auto
qed

lemma dumped_seeded:
  "c \<in> set (demo_comics ()) \<Longrightarrow>
   \<exists>r. dumped (serialize_document lib (AList.update ''_id'' (PObjectId oid) c)) = Inr r"
  by (auto simp: demo_comics_def serialize_document_def rename_id_def iso_field_def dumped_def
      ComicResponse_init_def req_str_def opt_str_def opt_float_def opt_str_list_def)

lemma comprehension_total:
  "(\<And>x. x \<in> set xs \<Longrightarrow> \<exists>y. f x = Inr y) \<Longrightarrow> \<exists>ys. comprehension f xs = Inr ys"
proof (induction xs)
  case Nil
  then show ?case by simp
next
  case (Cons x xs)
  from Cons.prems obtain y where "f x = Inr y" by auto
  moreover from Cons obtain ys where "comprehension f xs = Inr ys" by auto
  ultimately show ?case by simp
qed

lemma get_documents_docs:
  "get_documents lib s f limit = (Inr docs, s') \<Longrightarrow> d \<in> set docs \<Longrightarrow>
   d \<in> set (comic s) \<and> matches lib f d"
  by (auto simp: get_documents_def tick_def split: prod.splits if_splits list.splits
      dest: in_set_takeD)

text \<open>
  C5. With a store whose collection is empty and whose calls do not raise, one listing
  leaves the collection holding all demo records, each under a new identifier, and the
  answer is read from these. When a step of the seeding raises, the listing is the read
  on the store as the seeding left it; and on a collection that was empty the listing
  returns whenever the read itself does not raise.
\<close>

theorem seeding_before_read:
  "(comic s = [] \<and> faults s = [] \<longrightarrow>
      (\<exists>s1. snd (list_comics lib (Some s) q genre limit) = Some s1 \<and>
            comic s1 = with_ids (counter s) (demo_comics ())) \<and>
      fst (list_comics lib (Some s) q genre limit) =
        comprehension (\<lambda>d. dumped (serialize_document lib d))
          (take (nat limit)
             (filter (matches lib (build_filter q genre))
                (with_ids (counter s) (demo_comics ()))))) \<and>
   (seed_try s = (Some e, s') \<longrightarrow>
      list_comics lib (Some s) q genre limit = read_comics lib s' q genre limit) \<and>
   (comic s = [] \<and> \<not> fst (tick (seed s)) \<longrightarrow>
      (\<exists>rs. fst (list_comics lib (Some s) q genre limit) = Inr rs))"
proof (intro conjI impI)
  assume a: "comic s = [] \<and> faults s = []"
  then have sd: "seed s = s\<lparr>comic := with_ids (counter s) (demo_comics ()),
                            counter := counter s + 4\<rparr>"
    by (simp add: seed_ok)
  from a show "\<exists>s1. snd (list_comics lib (Some s) q genre limit) = Some s1 \<and>
            comic s1 = with_ids (counter s) (demo_comics ())"
    by (simp add: list_comics_def read_comics_def sd get_documents_def tick_def)
  from a show "fst (list_comics lib (Some s) q genre limit) =
        comprehension (\<lambda>d. dumped (serialize_document lib d))
          (take (nat limit)
             (filter (matches lib (build_filter q genre))
                (with_ids (counter s) (demo_comics ()))))"
    by (simp add: list_comics_def read_comics_def sd get_documents_def tick_def)
next
  assume "seed_try s = (Some e, s')"
  then show "list_comics lib (Some s) q genre limit = read_comics lib s' q genre limit"
    by (simp add: list_comics_def seed_def)
next
  assume a: "comic s = [] \<and> \<not> fst (tick (seed s))"
  obtain f s2 where tk: "tick (seed s) = (f, s2)" by (cases "tick (seed s)")
  with a have "\<not> f" by simp
  with tk obtain docs where
    g: "get_documents lib (seed s) (build_filter q genre) limit = (Inr docs, s2)"
    by (simp add: get_documents_def)
  have "\<exists>r. dumped (serialize_document lib d) = Inr r" if "d \<in> set docs" for d
  proof -
    from get_documents_docs [OF g that] have "d \<in> set (comic (seed s))" by simp
    with a seed_docs [of s d] obtain c oid where
      "c \<in> set (demo_comics ())" and "d = AList.update ''_id'' (PObjectId oid) c" by auto
    then show ?thesis by (simp add: dumped_seeded)
  qed
  then obtain rs where "comprehension (\<lambda>d. dumped (serialize_document lib d)) docs = Inr rs"
    using comprehension_total [of docs "\<lambda>d. dumped (serialize_document lib d)"] by auto
  with g show "\<exists>rs. fst (list_comics lib (Some s) q genre limit) = Inr rs"
    by (simp add: list_comics_def read_comics_def)
qed

theorem seeding_before_read_witness:
  "comic empty_store = [] \<and> faults empty_store = [] \<and>
   (\<exists>s1. snd (list_comics text_lib (Some empty_store) None None 24) = Some s1 \<and>
         comic s1 = with_ids 0 (demo_comics ())) \<and>
   seed_try faulty_store =
     (Some StoreError, \<lparr>comic = with_ids 0 [hd (demo_comics ())], counter = 1, faults = []\<rparr>) \<and>
   list_comics text_lib (Some faulty_store) None None 24 =
     read_comics text_lib
       \<lparr>comic = with_ids 0 [hd (demo_comics ())], counter = 1, faults = []\<rparr> None None 24 \<and>
   comic faulty_store = [] \<and> \<not> fst (tick (seed faulty_store)) \<and>
   (\<exists>rs. fst (list_comics text_lib (Some faulty_store) None None 24) = Inr rs)"
proof -
  have e: "comic empty_store = [] \<and> faults empty_store = []" and c: "counter empty_store = 0"
    by (simp_all add: empty_store_def)
  have st: "seed_try faulty_store =
     (Some StoreError, \<lparr>comic = with_ids 0 [hd (demo_comics ())], counter = 1, faults = []\<rparr>)"
    by (simp add: seed_try_def count_documents_def create_document_def tick_def Let_def
        faulty_store_def demo_comics_def)
  have f: "comic faulty_store = [] \<and> \<not> fst (tick (seed faulty_store))"
    by (simp add: seed_def st tick_def) (simp add: faulty_store_def)
  from seeding_before_read [of empty_store text_lib None None 24] e c
  have "\<exists>s1. snd (list_comics text_lib (Some empty_store) None None 24) = Some s1 \<and>
         comic s1 = with_ids 0 (demo_comics ())" by simp
  moreover from seeding_before_read [of faulty_store text_lib None None 24 StoreError
      "\<lparr>comic = with_ids 0 [hd (demo_comics ())], counter = 1, faults = []\<rparr>"] st f
  have "list_comics text_lib (Some faulty_store) None None 24 =
     read_comics text_lib
       \<lparr>comic = with_ids 0 [hd (demo_comics ())], counter = 1, faults = []\<rparr> None None 24"
    and "\<exists>rs. fst (list_comics text_lib (Some faulty_store) None None 24) = Inr rs"
    by blast+
  ultimately show ?thesis using e st f by blast
qed

section \<open>Searching by title\<close>

lemma build_filter_title:
  "q \<noteq> [] \<Longrightarrow>
   build_filter (Some q) genre =
     (''title'', Regex q ''i'') #
     (case genre of None \<Rightarrow> [] | Some g \<Rightarrow> if g \<noteq> [] then [(''genre'', Exactly g)] else [])"
  by (simp add: build_filter_def split: option.splits)

lemma dumped_required:
  assumes "dumped c = Inr r" and "k \<in> {''title'', ''genre''}"
  shows "\<exists>t. map_of c k = Some (PStr t) \<and> map_of r k = Some (PStr t)"
proof -
  from assms(1) obtain m where m: "ComicResponse_init c = Inr m" and r: "r = model_dump m"
    by (auto simp: dumped_def split: sum.splits)
  from m have "req_str c ''title'' = Some (title' m) \<and> req_str c ''genre'' = Some (genre' m)"
    by (auto simp: ComicResponse_init_def split: option.splits Option.bind_splits)
  then have "map_of c ''title'' = Some (PStr (title' m)) \<and>
             map_of c ''genre'' = Some (PStr (genre' m))"
    by (auto simp: req_str_def split: option.splits pyval.splits)
  with r assms(2) show ?thesis by (auto simp: model_dump_def)
qed

lemma serialize_document_keeps:
  "k \<in> {''title'', ''genre''} \<Longrightarrow> map_of (serialize_document lib d) k = map_of d k"
  by (auto simp: map_of_serialize_document map_of_rename_id split: option.splits)

text \<open>
  C8. With the store available and a non-empty \<open>q\<close>, the handler passes
  \<^verbatim>\<open>get_documents\<close> the filter that matches \<open>title\<close> against the regular expression
  \<open>q\<close> with option \<open>i\<close>, and \<open>genre\<close> exactly when a genre is given. Where that search
  finds \<open>q\<close> only in titles that contain it, ignoring case, every record of the answer
  has such a title, and the given genre.
\<close>

theorem listing_search_by_title:
  assumes "q \<noteq> []"
    and "\<forall>t. regex_search lib q ''i'' t \<longrightarrow> icontains q t"
    and "fst (list_comics lib (Some s) (Some q) genre limit) = Inr rs"
    and "r \<in> set rs"
  shows "build_filter (Some q) genre =
           (''title'', Regex q ''i'') #
           (case genre of None \<Rightarrow> []
            | Some g \<Rightarrow> if g \<noteq> [] then [(''genre'', Exactly g)] else []) \<and>
         (\<exists>t. map_of r ''title'' = Some (PStr t) \<and> icontains q t) \<and>
         (\<forall>g. genre = Some g \<and> g \<noteq> [] \<longrightarrow> map_of r ''genre'' = Some (PStr g))"
proof -
  note bf = build_filter_title [OF assms(1), of genre]
  from assms(3) obtain docs s2 where
    g: "get_documents lib (seed s) (build_filter (Some q) genre) limit = (Inr docs, s2)" and
    c: "comprehension (\<lambda>d. dumped (serialize_document lib d)) docs = Inr rs"
    by (auto simp: list_comics_def read_comics_def split: prod.splits sum.splits)
  from comprehension_source [OF c assms(4)] obtain d where
    d: "d \<in> set docs" and dr: "dumped (serialize_document lib d) = Inr r" by auto
  from get_documents_docs [OF g d] have m: "matches lib (build_filter (Some q) genre) d" by simp
  then have "holds lib d (''title'', Regex q ''i'')"
    by (simp add: matches_def bf)
  then obtain t where t: "map_of d ''title'' = Some (PStr t)" and rx: "regex_search lib q ''i'' t"
    by (auto simp: holds_def split: option.splits pyval.splits)
  from dumped_required [OF dr, of "''title''"] t
  have "map_of r ''title'' = Some (PStr t)"
    by (simp add: serialize_document_keeps)
  with rx assms(2) have title: "\<exists>t. map_of r ''title'' = Some (PStr t) \<and> icontains q t" by auto
  have genre: "map_of r ''genre'' = Some (PStr g')" if "genre = Some g'" and "g' \<noteq> []" for g'
  proof -
    from m that have "holds lib d (''genre'', Exactly g')"
      by (simp add: matches_def build_filter_title [OF assms(1)])
    then have "map_of d ''genre'' = Some (PStr g')" by (simp add: holds_def)
    with dumped_required [OF dr, of "''genre''"] show ?thesis
      by (simp add: serialize_document_keeps)
  qed
  from bf title genre show ?thesis by blast
qed

lemma arcane_listing:
  "fst (list_comics text_lib (Some one_doc_store) (Some ''Arcane'') (Some ''Fantasy'') 24) =
     Inr [stored_doc_response]"
  by (simp add: list_comics_def read_comics_def seed_def seed_try_def count_documents_def
      tick_def get_documents_def build_filter_def matches_def holds_def serialize_document_def
      rename_id_def iso_field_def dumped_def ComicResponse_init_def model_dump_def req_str_def
      opt_str_def opt_float_def opt_str_list_def opt_val_def text_lib_def str_text_def
      icontains_def lower_def one_doc_store_def stored_doc_def stored_doc_response_def)

theorem listing_search_by_title_witness:
  "''Arcane'' \<noteq> [] \<and>
   fst (list_comics text_lib (Some one_doc_store) (Some ''Arcane'') (Some ''Fantasy'') 24) =
     Inr [stored_doc_response] \<and>
   stored_doc_response \<in> set [stored_doc_response] \<and>
   (\<exists>t. map_of stored_doc_response ''title'' = Some (PStr t) \<and> icontains ''Arcane'' t) \<and>
   map_of stored_doc_response ''genre'' = Some (PStr ''Fantasy'')"
proof -
  have rx: "\<forall>t. regex_search text_lib ''Arcane'' ''i'' t \<longrightarrow> icontains ''Arcane'' t"
    by (simp add: text_lib_def)
  have m: "stored_doc_response \<in> set [stored_doc_response]" by simp
  have n: "''Arcane'' \<noteq> []" by simp
  from listing_search_by_title [OF n rx arcane_listing m]
  have "\<exists>t. map_of stored_doc_response ''title'' = Some (PStr t) \<and> icontains ''Arcane'' t"
    and "map_of stored_doc_response ''genre'' = Some (PStr ''Fantasy'')"
    by simp_all
  with arcane_listing show ?thesis by simp
qed

end
